theory Spec2Isabelle
  imports
    Main
    "HOL-Library.Sublist"
    "HOL-Library.Char_ord"
    "HOL-Library.List_Lexorder"
    "HOL-Library.AList"
    "HOL-Library.Multiset"
begin

section \<open>Post-processing of BIDS fieldmap outputs\<close>

text \<open>
  A shallow embedding of \<^verbatim>\<open>src/data_to_bids/post_process_core.py\<close>: identifier
  normalisation, session resolution and the three passes over a dataset tree
  (\<^verbatim>\<open>rename_fieldmap_files\<close>, \<^verbatim>\<open>update_scans_tsv\<close>, \<^verbatim>\<open>update_fieldmap_json\<close>).
\<close>

subsection \<open>Python strings\<close>

text \<open>
  A Python \<^verbatim>\<open>str\<close> is a \<^typ>\<open>string\<close>. \<^verbatim>\<open>s.startswith(p)\<close> is \<^term>\<open>prefix p s\<close>.
  \<^verbatim>\<open>sub in s\<close> is \<open>py_in sub s\<close>: some suffix of \<open>s\<close> starts with \<open>sub\<close>.
\<close>

fun py_in :: "string \<Rightarrow> string \<Rightarrow> bool" where
  "py_in sub [] = (sub = [])"
| "py_in sub (c # cs) = (prefix sub (c # cs) \<or> py_in sub cs)"

text \<open>
  \<^verbatim>\<open>s.replace(old, new)\<close> replaces the occurrences of \<open>old\<close> from left to right,
  without overlap. \<open>replace_scan\<close> is the scan for a non-empty \<open>old\<close>; with an empty
  \<open>old\<close> Python puts \<open>new\<close> before every character and at the end.
\<close>

function replace_scan :: "string \<Rightarrow> string \<Rightarrow> string \<Rightarrow> string" where
  "replace_scan old new [] = []"
| "replace_scan old new (c # cs) =
     (if old \<noteq> [] \<and> prefix old (c # cs)
      then new @ replace_scan old new (drop (length old) (c # cs))
      else c # replace_scan old new cs)"
  by pat_completeness auto
termination
  by (relation "measure (\<lambda>(old, new, s). length s)") auto

definition py_replace :: "string \<Rightarrow> string \<Rightarrow> string \<Rightarrow> string" where
  "py_replace s old new =
     (if old = [] then new @ concat (map (\<lambda>c. c # new) s) else replace_scan old new s)"

subsection \<open>Identifier normalisation\<close>

text \<open>
  \<^verbatim>\<open>def normalize_subject(s): return s if s.startswith("sub-") else f"sub-{s}"\<close>
  and the same for sessions with \<^verbatim>\<open>"ses-"\<close>.
\<close>

definition normalize_subject :: "string \<Rightarrow> string" where
  "normalize_subject s = (if prefix ''sub-'' s then s else ''sub-'' @ s)"

definition normalize_session :: "string \<Rightarrow> string" where
  "normalize_session s = (if prefix ''ses-'' s then s else ''ses-'' @ s)"

subsection \<open>The dataset tree\<close>

text \<open>
  The file system is a tree: a regular file with its text, or a directory with its
  entries. A path is the list of its components below the root of the model, so
  \<^verbatim>\<open>os.path.join(d, name)\<close> is \<open>d @ [name]\<close> and \<^verbatim>\<open>os.path.basename\<close> is the last
  component. Names are single components, as \<^verbatim>\<open>os.listdir\<close> returns them; the
  names of \<open>base_dir\<close>, of subjects and of sessions hold no glob metacharacter, so
  glob takes the directory part of a pattern, and the name of a sidecar, literally.
  A name is looked up at its first entry, so an entry list denotes the finite map
  \<^term>\<open>map_of\<close> of it.
\<close>

type_synonym path = "string list"

datatype node = File string | Dir "(string \<times> node) list"

fun lookup :: "node \<Rightarrow> path \<Rightarrow> node option" where
  "lookup n [] = Some n"
| "lookup (File t) (c # cs) = None"
| "lookup (Dir kids) (c # cs) =
     (case map_of kids c of None \<Rightarrow> None | Some k \<Rightarrow> lookup k cs)"

definition isdir :: "node \<Rightarrow> path \<Rightarrow> bool" where
  "isdir fs p = (case lookup fs p of Some (Dir kids) \<Rightarrow> True | _ \<Rightarrow> False)"

definition isfile :: "node \<Rightarrow> path \<Rightarrow> bool" where
  "isfile fs p = (case lookup fs p of Some (File t) \<Rightarrow> True | _ \<Rightarrow> False)"

definition path_exists :: "node \<Rightarrow> path \<Rightarrow> bool" where
  "path_exists fs p = (lookup fs p \<noteq> None)"

text \<open>\<^verbatim>\<open>os.listdir\<close>, in the arbitrary order of the entries. Every caller sorts it.\<close>

definition listdir :: "node \<Rightarrow> path \<Rightarrow> string list" where
  "listdir fs p = (case lookup fs p of Some (Dir kids) \<Rightarrow> remdups (map fst kids) | _ \<Rightarrow> [])"

definition basename :: "path \<Rightarrow> string" where
  "basename p = (if p = [] then [] else last p)"

text \<open>Changing the node at a path; a path that leads through a file changes nothing.\<close>

fun update_at :: "path \<Rightarrow> (node \<Rightarrow> node) \<Rightarrow> node \<Rightarrow> node" where
  "update_at [] f n = f n"
| "update_at (c # cs) f (File t) = File t"
| "update_at (c # cs) f (Dir kids) =
     Dir (map (\<lambda>e. if fst e = c then (fst e, update_at cs f (snd e)) else e) kids)"

text \<open>
  The environment of a run: what the operating system refuses (\<open>denied\<close>: a path
  whose entry cannot be modified, for permissions or a device error), the path
  separator \<^verbatim>\<open>os.sep\<close>, and the library functions that the passes call on file
  texts: \<^verbatim>\<open>pandas.read_csv\<close> and \<^verbatim>\<open>DataFrame.to_csv\<close>, \<^verbatim>\<open>json.load\<close> and
  \<^verbatim>\<open>json.dump\<close>, and \<^verbatim>\<open>dict(x)\<close> on a JSON value that is no object. \<open>'v\<close> is the
  type of the numeric values, which the passes never inspect.
\<close>

datatype exn = OSError | ParserError | AttributeError | JSONDecodeError | TypeError

datatype 'v column = StrCol "string option list" | OtherCol "'v list"

type_synonym 'v table = "(string \<times> 'v column) list"

datatype 'v json =
    JNull
  | JBool bool
  | JNum 'v
  | JStr string
  | JArr "'v json list"
  | JObj "(string \<times> 'v json) list"

record 'v env =
  denied :: "path \<Rightarrow> bool"
  os_sep :: char
  read_csv :: "string \<Rightarrow> exn + 'v table"
  to_csv :: "'v table \<Rightarrow> string"
  json_load :: "string \<Rightarrow> exn + 'v json"
  json_dump :: "'v json \<Rightarrow> string"
  dict_conv :: "'v json \<Rightarrow> exn + (string \<times> 'v json) list"

text \<open>
  Reading a file's text, and \<^verbatim>\<open>open(path, "w")\<close> followed by writing a text: the
  file is replaced, or created in a directory that exists. Reading is refused for no
  path; a directory cannot be read or written as a file.
\<close>

fun add_entry :: "string \<Rightarrow> node \<Rightarrow> node \<Rightarrow> node" where
  "add_entry name x (File t) = File t"
| "add_entry name x (Dir kids) = Dir (kids @ [(name, x)])"

definition read_file :: "node \<Rightarrow> path \<Rightarrow> exn + string" where
  "read_file fs p = (case lookup fs p of Some (File t) \<Rightarrow> Inr t | _ \<Rightarrow> Inl OSError)"

definition write_file :: "'v env \<Rightarrow> node \<Rightarrow> path \<Rightarrow> string \<Rightarrow> exn + node" where
  "write_file env fs p t =
     (if denied env p then Inl OSError
      else case lookup fs p of
             Some (File t0) \<Rightarrow> Inr (update_at p (\<lambda>n. File t) fs)
           | Some (Dir kids) \<Rightarrow> Inl OSError
           | None \<Rightarrow>
               if p \<noteq> [] \<and> isdir fs (butlast p)
               then Inr (update_at (butlast p) (add_entry (last p) (File t)) fs)
               else Inl OSError)"

text \<open>
  \<^verbatim>\<open>os.rename(src, dst)\<close> for two names of one directory. As on POSIX, the entry
  takes the new name and replaces an entry that has it.
\<close>

fun move_entry :: "string \<Rightarrow> string \<Rightarrow> node \<Rightarrow> node" where
  "move_entry a b (File t) = File t"
| "move_entry a b (Dir kids) =
     (case map_of kids a of
        None \<Rightarrow> Dir kids
      | Some k \<Rightarrow> Dir ((b, k) # filter (\<lambda>e. fst e \<noteq> a \<and> fst e \<noteq> b) kids))"

definition os_rename :: "'v env \<Rightarrow> node \<Rightarrow> path \<Rightarrow> string \<Rightarrow> string \<Rightarrow> exn + node" where
  "os_rename env fs d a b =
     (if denied env (d @ [a]) \<or> denied env (d @ [b]) then Inl OSError
      else if \<not> path_exists fs (d @ [a]) then Inl OSError
      else Inr (update_at d (move_entry a b) fs))"

subsection \<open>Globbing\<close>

text \<open>
  \<^verbatim>\<open>fnmatch\<close> for the patterns of this program, which are literal characters and
  \<^verbatim>\<open>*\<close>, with the case-sensitive matching of POSIX.
  \<^verbatim>\<open>glob.glob(os.path.join(d, pat))\<close> lists \<open>d\<close>, drops the hidden names (a leading
  dot) unless the pattern is hidden itself, and keeps the names that match. The
  program sorts what glob returns as strings; the paths of one call are entries of one
  directory, so their order is the order of the names (proved below as
  \<open>sort_siblings\<close>).
\<close>

function fnmatch :: "string \<Rightarrow> string \<Rightarrow> bool" where
  "fnmatch [] [] = True"
| "fnmatch (c # cs) [] = False"
| "fnmatch [] (p # ps) = (p = CHR ''*'' \<and> fnmatch [] ps)"
| "fnmatch (c # cs) (p # ps) =
     (if p = CHR ''*'' then fnmatch (c # cs) ps \<or> fnmatch cs (p # ps)
      else c = p \<and> fnmatch cs ps)"
  by pat_completeness auto
termination
  by (relation "measure (\<lambda>(n, p). length n + length p)") auto

definition ishidden :: "string \<Rightarrow> bool" where
  "ishidden n = (case n of [] \<Rightarrow> False | c # cs \<Rightarrow> c = CHR ''.'')"

definition glob :: "node \<Rightarrow> path \<Rightarrow> string \<Rightarrow> path list" where
  "glob fs d pat =
     map (\<lambda>n. d @ [n])
       (filter (\<lambda>n. (ishidden pat \<or> \<not> ishidden n) \<and> fnmatch n pat) (listdir fs d))"

text \<open>A pattern without metacharacters: the path itself when it exists.\<close>

definition glob_literal :: "node \<Rightarrow> path \<Rightarrow> path list" where
  "glob_literal fs p = (if path_exists fs p then [p] else [])"

subsection \<open>Output and state of a pass\<close>

datatype msg =
    DirNotFound path
  | SessionNotFound path
  | SkipRename path path
  | WouldRename path path
  | Renaming path path
  | NoFilenameColumn path
  | NoChangesNeeded path
  | WouldUpdateTSV nat path
  | UpdatingTSV nat path
  | ErrorProcessing path exn
  | MissingFuncOrFmap path
  | NoFieldmapJSON path path
  | WouldUpdateJSON path
  | UpdatingJSON path
  | ErrorUpdating path exn

text \<open>
  A pass threads the tree and the lines printed so far. It completes, or an
  exception that nothing catches aborts it in the state reached.
\<close>

type_synonym state = "node \<times> msg list"

datatype outcome = Completed state | Aborted exn state

subsection \<open>Session resolution\<close>

text \<open>
  \<^verbatim>\<open>iter_session_paths(subject_path, sessions_filter)\<close>. The test
  \<^verbatim>\<open>if sessions_filter:\<close> is Python truthiness: \<^verbatim>\<open>None\<close> and the empty list are false.
  \<open>session_candidates\<close> is what the generator iterates over, with the branch taken;
  \<open>iter_session_paths\<close> is what it yields and prints on a tree that does not change.
\<close>

definition truthy :: "string list option \<Rightarrow> bool" where
  "truthy sessions_filter = (case sessions_filter of None \<Rightarrow> False | Some xs \<Rightarrow> xs \<noteq> [])"

definition session_candidates :: "node \<Rightarrow> path \<Rightarrow> string list option \<Rightarrow> bool \<times> path list" where
  "session_candidates fs subject_path sessions_filter =
     (if truthy sessions_filter
      then (True, map (\<lambda>ses. subject_path @ [ses])
                    (case sessions_filter of None \<Rightarrow> [] | Some xs \<Rightarrow> xs))
      else (False, sort (glob fs subject_path ''ses-*'')))"

definition iter_session_paths :: "node \<Rightarrow> path \<Rightarrow> string list option \<Rightarrow> path list \<times> msg list" where
  "iter_session_paths fs subject_path sessions_filter =
     (case session_candidates fs subject_path sessions_filter of
        (explicit, cands) \<Rightarrow>
          (filter (isdir fs) cands,
           if explicit then map SessionNotFound (filter (\<lambda>p. \<not> isdir fs p) cands) else []))"

text \<open>
  The loops of a pass. The generator is lazy: it tests each candidate on the tree
  that the body has left, and prints the missing session between the bodies' lines.
\<close>

fun for_sessions ::
  "(path \<Rightarrow> state \<Rightarrow> outcome) \<Rightarrow> bool \<Rightarrow> path list \<Rightarrow> state \<Rightarrow> outcome" where
  "for_sessions body explicit [] st = Completed st"
| "for_sessions body explicit (p # ps) st =
     (if isdir (fst st) p
      then (case body p st of
              Completed st' \<Rightarrow> for_sessions body explicit ps st'
            | Aborted e st' \<Rightarrow> Aborted e st')
      else for_sessions body explicit ps
             (fst st, if explicit then snd st @ [SessionNotFound p] else snd st))"

definition each_session ::
  "(path \<Rightarrow> state \<Rightarrow> outcome) \<Rightarrow> string list option \<Rightarrow> path \<Rightarrow> state \<Rightarrow> outcome" where
  "each_session body sessions_filter subject_path st =
     (case session_candidates (fst st) subject_path sessions_filter of
        (explicit, cands) \<Rightarrow> for_sessions body explicit cands st)"

fun for_subjects ::
  "(string \<Rightarrow> path \<Rightarrow> state \<Rightarrow> outcome) \<Rightarrow> path \<Rightarrow> string list \<Rightarrow> state \<Rightarrow> outcome" where
  "for_subjects body base_dir [] st = Completed st"
| "for_subjects body base_dir (subject # subjects) st =
     (if \<not> isdir (fst st) (base_dir @ [subject])
      then for_subjects body base_dir subjects
             (fst st, snd st @ [DirNotFound (base_dir @ [subject])])
      else (case body subject (base_dir @ [subject]) st of
              Completed st' \<Rightarrow> for_subjects body base_dir subjects st'
            | Aborted e st' \<Rightarrow> Aborted e st'))"

subsection \<open>The file renamer\<close>

text \<open>
  The new name of a file, lines 86 to 91 of the source: \<^verbatim>\<open>if\<close> of the first token,
  \<^verbatim>\<open>elif\<close> of the second, else \<^verbatim>\<open>continue\<close> (no new name).
\<close>

definition new_filename :: "string \<Rightarrow> string option" where
  "new_filename filename =
     (if py_in ''fieldmap1'' filename then Some (py_replace filename ''fieldmap1'' ''magnitude'')
      else if py_in ''fieldmap2'' filename then Some (py_replace filename ''fieldmap2'' ''fieldmap'')
      else None)"

text \<open>The body of the loop over the names of one \<^verbatim>\<open>fmap\<close> directory.\<close>

definition rename_one :: "'v env \<Rightarrow> bool \<Rightarrow> path \<Rightarrow> string \<Rightarrow> state \<Rightarrow> outcome" where
  "rename_one env dry_run fmap_dir filename st =
     (if \<not> isfile (fst st) (fmap_dir @ [filename]) then Completed st
      else case new_filename filename of
             None \<Rightarrow> Completed st
           | Some new \<Rightarrow>
               if path_exists (fst st) (fmap_dir @ [new])
               then Completed (fst st, snd st @ [SkipRename (fmap_dir @ [filename]) (fmap_dir @ [new])])
               else if dry_run
               then Completed (fst st, snd st @ [WouldRename (fmap_dir @ [filename]) (fmap_dir @ [new])])
               else (case os_rename env (fst st) fmap_dir filename new of
                       Inl e \<Rightarrow>
                         Aborted e (fst st, snd st @ [Renaming (fmap_dir @ [filename]) (fmap_dir @ [new])])
                     | Inr fs' \<Rightarrow>
                         Completed (fs', snd st @ [Renaming (fmap_dir @ [filename]) (fmap_dir @ [new])])))"

fun rename_files :: "'v env \<Rightarrow> bool \<Rightarrow> path \<Rightarrow> string list \<Rightarrow> state \<Rightarrow> outcome" where
  "rename_files env dry_run fmap_dir [] st = Completed st"
| "rename_files env dry_run fmap_dir (filename # rest) st =
     (case rename_one env dry_run fmap_dir filename st of
        Completed st' \<Rightarrow> rename_files env dry_run fmap_dir rest st'
      | Aborted e st' \<Rightarrow> Aborted e st')"

definition rename_session :: "'v env \<Rightarrow> bool \<Rightarrow> path \<Rightarrow> state \<Rightarrow> outcome" where
  "rename_session env dry_run ses_path st =
     (if \<not> isdir (fst st) (ses_path @ [''fmap'']) then Completed st
      else rename_files env dry_run (ses_path @ [''fmap''])
             (sort (listdir (fst st) (ses_path @ [''fmap'']))) st)"

definition rename_fieldmap_files ::
  "'v env \<Rightarrow> string list \<Rightarrow> path \<Rightarrow> string list option \<Rightarrow> bool \<Rightarrow> node \<Rightarrow> outcome" where
  "rename_fieldmap_files env subjects base_dir sessions_filter dry_run fs =
     for_subjects
       (\<lambda>subject subject_path. each_session (rename_session env dry_run) sessions_filter subject_path)
       base_dir subjects (fs, [])"

subsection \<open>The scan-table updater\<close>

text \<open>
  A data frame is the list of its columns in order, each with its values in row
  order. A column that pandas read as strings holds strings and missing values
  (\<open>None\<close> for NaN); the \<^verbatim>\<open>.str\<close> accessor raises on any other column, and on a
  name that several columns share.
\<close>

definition str_values :: "'v table \<Rightarrow> exn + string option list" where
  "str_values df =
     (case filter (\<lambda>c. fst c = ''filename'') df of
        [(name, StrCol vs)] \<Rightarrow> Inr vs
      | _ \<Rightarrow> Inl AttributeError)"

definition replace_tokens :: "string \<Rightarrow> string" where
  "replace_tokens s =
     py_replace (py_replace s ''fieldmap1'' ''magnitude'') ''fieldmap2'' ''fieldmap''"

definition set_filename :: "string option list \<Rightarrow> 'v table \<Rightarrow> 'v table" where
  "set_filename vs df = map (\<lambda>c. if fst c = ''filename'' then (fst c, StrCol vs) else c) df"

text \<open>
  \<^verbatim>\<open>(df["filename"] != original).sum()\<close>: a missing value differs from everything,
  also from itself.
\<close>

definition changed_rows :: "string option list \<Rightarrow> string option list \<Rightarrow> nat" where
  "changed_rows new original =
     length (filter (\<lambda>r. fst r = None \<or> snd r = None \<or> fst r \<noteq> snd r) (zip new original))"

text \<open>The body of the loop over the manifests of a session, with its \<^verbatim>\<open>try\<close>.\<close>

definition scans_one :: "'v env \<Rightarrow> bool \<Rightarrow> path \<Rightarrow> state \<Rightarrow> state" where
  "scans_one env dry_run tsv_file st =
     (case read_file (fst st) tsv_file of
        Inl e \<Rightarrow> (fst st, snd st @ [ErrorProcessing tsv_file e])
      | Inr text \<Rightarrow>
     (case read_csv env text of
        Inl e \<Rightarrow> (fst st, snd st @ [ErrorProcessing tsv_file e])
      | Inr df \<Rightarrow>
     if ''filename'' \<notin> set (map fst df)
     then (fst st, snd st @ [NoFilenameColumn tsv_file])
     else (case str_values df of
        Inl e \<Rightarrow> (fst st, snd st @ [ErrorProcessing tsv_file e])
      | Inr original \<Rightarrow>
     if map (map_option replace_tokens) original = original
     then (fst st, snd st @ [NoChangesNeeded tsv_file])
     else if dry_run
     then (fst st, snd st @
             [WouldUpdateTSV (changed_rows (map (map_option replace_tokens) original) original) tsv_file])
     else (case write_file env (fst st) tsv_file
                  (to_csv env (set_filename (map (map_option replace_tokens) original) df)) of
        Inl e \<Rightarrow>
          (fst st, snd st @
             [UpdatingTSV (changed_rows (map (map_option replace_tokens) original) original) tsv_file,
              ErrorProcessing tsv_file e])
      | Inr fs' \<Rightarrow>
          (fs', snd st @
             [UpdatingTSV (changed_rows (map (map_option replace_tokens) original) original) tsv_file])))))"

definition scans_session :: "'v env \<Rightarrow> bool \<Rightarrow> path \<Rightarrow> state \<Rightarrow> outcome" where
  "scans_session env dry_run ses_path st =
     Completed (fold (scans_one env dry_run) (sort (glob (fst st) ses_path ''*_scans.tsv'')) st)"

definition update_scans_tsv ::
  "'v env \<Rightarrow> string list \<Rightarrow> path \<Rightarrow> string list option \<Rightarrow> bool \<Rightarrow> node \<Rightarrow> outcome" where
  "update_scans_tsv env subjects base_dir sessions_filter dry_run fs =
     for_subjects
       (\<lambda>subject subject_path. each_session (scans_session env dry_run) sessions_filter subject_path)
       base_dir subjects (fs, [])"

subsection \<open>The sidecar updater\<close>

text \<open>
  \<^verbatim>\<open>os.path.relpath(p, start=base_dir)\<close> for a path below \<open>base_dir\<close>: the components
  after \<open>base_dir\<close>, joined by \<^verbatim>\<open>os.sep\<close>.
\<close>

fun join_sep :: "char \<Rightarrow> string list \<Rightarrow> string" where
  "join_sep sep [] = []"
| "join_sep sep [c] = c"
| "join_sep sep (c # d # cs) = c @ sep # join_sep sep (d # cs)"

definition relpath :: "'v env \<Rightarrow> path \<Rightarrow> path \<Rightarrow> string" where
  "relpath env p start = join_sep (os_sep env) (drop (length start) p)"

definition intended_for :: "'v env \<Rightarrow> node \<Rightarrow> path \<Rightarrow> path \<Rightarrow> string list" where
  "intended_for env fs base_dir func_dir =
     map (\<lambda>bold_file. ''bids::'' @ py_replace (relpath env bold_file base_dir) [os_sep env] ''/'')
       (sort (glob fs func_dir ''*_bold.nii.gz''))"

text \<open>
  A Python \<^verbatim>\<open>dict\<close> is the list of its items in insertion order, with distinct
  keys. \<^verbatim>\<open>d[k] = v\<close> is \<^term>\<open>AList.update k v d\<close>: an old key keeps its place, a new
  one goes last. \<^verbatim>\<open>==\<close> on two dicts ignores the order; a dict equals no other
  JSON value.
\<close>

definition py_dict :: "'v env \<Rightarrow> 'v json \<Rightarrow> exn + (string \<times> 'v json) list" where
  "py_dict env j = (case j of JObj d \<Rightarrow> Inr d | _ \<Rightarrow> dict_conv env j)"

definition dict_eq :: "(string \<times> 'v json) list \<Rightarrow> (string \<times> 'v json) list \<Rightarrow> bool" where
  "dict_eq d1 d2 =
     (set (map fst d1) = set (map fst d2) \<and> (\<forall>k \<in> set (map fst d1). map_of d1 k = map_of d2 k))"

definition eq_json :: "(string \<times> 'v json) list \<Rightarrow> 'v json \<Rightarrow> bool" where
  "eq_json d j = (case j of JObj d' \<Rightarrow> dict_eq d d' | _ \<Rightarrow> False)"

definition new_data :: "string list \<Rightarrow> string \<Rightarrow> (string \<times> 'v json) list \<Rightarrow> (string \<times> 'v json) list" where
  "new_data intended b0_identifier d =
     AList.update ''B0FieldIdentifier'' (JStr b0_identifier)
       (AList.update ''IntendedFor'' (JArr (map JStr intended)) d)"

text \<open>The \<^verbatim>\<open>try\<close> block on one sidecar, lines 196 to 216.\<close>

definition json_one :: "'v env \<Rightarrow> bool \<Rightarrow> string list \<Rightarrow> string \<Rightarrow> path \<Rightarrow> state \<Rightarrow> state" where
  "json_one env dry_run intended b0_identifier fmap_json_path st =
     (case read_file (fst st) fmap_json_path of
        Inl e \<Rightarrow> (fst st, snd st @ [ErrorUpdating fmap_json_path e])
      | Inr text \<Rightarrow>
     (case json_load env text of
        Inl e \<Rightarrow> (fst st, snd st @ [ErrorUpdating fmap_json_path e])
      | Inr fmap_data \<Rightarrow>
     (case py_dict env fmap_data of
        Inl e \<Rightarrow> (fst st, snd st @ [ErrorUpdating fmap_json_path e])
      | Inr d \<Rightarrow>
     if eq_json (new_data intended b0_identifier d) fmap_data
     then (fst st, snd st @ [NoChangesNeeded fmap_json_path])
     else if dry_run
     then (fst st, snd st @ [WouldUpdateJSON fmap_json_path])
     else (case write_file env (fst st) fmap_json_path
                  (json_dump env (JObj (new_data intended b0_identifier d))) of
        Inl e \<Rightarrow> (fst st, snd st @ [UpdatingJSON fmap_json_path, ErrorUpdating fmap_json_path e])
      | Inr fs' \<Rightarrow> (fs', snd st @ [UpdatingJSON fmap_json_path])))))"

definition json_session ::
  "'v env \<Rightarrow> bool \<Rightarrow> path \<Rightarrow> string \<Rightarrow> string \<Rightarrow> path \<Rightarrow> state \<Rightarrow> outcome" where
  "json_session env dry_run base_dir b0_identifier subject ses_path st =
     (if \<not> isdir (fst st) (ses_path @ [''func'']) \<or> \<not> isdir (fst st) (ses_path @ [''fmap''])
      then Completed (fst st, snd st @ [MissingFuncOrFmap ses_path])
      else (case glob_literal (fst st)
                   (ses_path @ [''fmap'', subject @ ''_'' @ basename ses_path @ ''_fieldmap.json'']) of
              [] \<Rightarrow>
                Completed (fst st, snd st @
                  [NoFieldmapJSON (ses_path @ [''fmap''])
                     (ses_path @ [''fmap'', subject @ ''_'' @ basename ses_path @ ''_fieldmap.json''])])
            | fmap_json_path # others \<Rightarrow>
                Completed (json_one env dry_run
                  (intended_for env (fst st) base_dir (ses_path @ [''func'']))
                  b0_identifier fmap_json_path st)))"

definition update_fieldmap_json ::
  "'v env \<Rightarrow> string list \<Rightarrow> path \<Rightarrow> string list option \<Rightarrow> string \<Rightarrow> bool \<Rightarrow> node \<Rightarrow> outcome" where
  "update_fieldmap_json env subjects base_dir sessions_filter b0_identifier dry_run fs =
     for_subjects
       (\<lambda>subject subject_path.
          each_session (json_session env dry_run base_dir b0_identifier subject)
            sessions_filter subject_path)
       base_dir subjects (fs, [])"

subsection \<open>A sample dataset\<close>

text \<open>
  One subject with two sessions. The first session holds the two fieldmap images of
  the converter, a sidecar, two functional runs (one hidden entry beside them) and a
  manifest; in the second, the new name of the image is taken. The sample codecs read
  and write two texts each.
\<close>

definition sample_table :: "int table" where
  "sample_table =
     [(''filename'', StrCol [Some ''fmap/s_fieldmap1.nii'', None, Some ''func/s_bold.nii'']),
      (''acq_time'', StrCol [Some ''t1'', Some ''t2'', None]),
      (''run'', OtherCol [1, 2, 3])]"

definition sample_table' :: "int table" where
  "sample_table' =
     [(''filename'', StrCol [Some ''fmap/s_magnitude.nii'', None, Some ''func/s_bold.nii'']),
      (''acq_time'', StrCol [Some ''t1'', Some ''t2'', None]),
      (''run'', OtherCol [1, 2, 3])]"

definition sample_doc :: "(string \<times> int json) list" where
  "sample_doc = [(''Units'', JStr ''Hz''), (''IntendedFor'', JNull), (''EchoTime'', JNum 5)]"

definition sample_doc' :: "(string \<times> int json) list" where
  "sample_doc' =
     [(''Units'', JStr ''Hz''),
      (''IntendedFor'', JArr [JStr ''bids::s/ses-1/func/r1_bold.nii.gz'',
                              JStr ''bids::s/ses-1/func/r2_bold.nii.gz'']),
      (''EchoTime'', JNum 5),
      (''B0FieldIdentifier'', JStr ''b0map_fmap0'')]"

definition sample_env :: "int env" where
  "sample_env =
     \<lparr>denied = (\<lambda>p. False),
      os_sep = CHR ''/'',
      read_csv = (\<lambda>t. if t = ''T'' then Inr sample_table
                       else if t = ''U'' then Inr sample_table' else Inl ParserError),
      to_csv = (\<lambda>df. if df = sample_table then ''T''
                      else if df = sample_table' then ''U'' else ''?''),
      json_load = (\<lambda>t. if t = ''J'' then Inr (JObj sample_doc)
                        else if t = ''K'' then Inr (JObj sample_doc') else Inl JSONDecodeError),
      json_dump = (\<lambda>j. if j = JObj sample_doc then ''J''
                        else if j = JObj sample_doc' then ''K'' else ''?''),
      dict_conv = (\<lambda>j. Inl TypeError)\<rparr>"

definition sample_tree :: node where
  "sample_tree =
     Dir [(''s'', Dir
       [(''ses-2'', Dir
          [(''fmap'', Dir [(''c_magnitude'', File ''0''), (''c_fieldmap1'', File ''1'')])]),
        (''ses-1'', Dir
          [(''fmap'', Dir [(''s_fieldmap2.nii'', File ''p''),
                           (''s_fieldmap1.nii'', File ''m''),
                           (''s_ses-1_fieldmap.json'', File ''J'')]),
           (''func'', Dir [(''r2_bold.nii.gz'', File ''b''),
                           (''.r0_bold.nii.gz'', File ''h''),
                           (''r1_bold.nii.gz'', File ''a''),
                           (''r1_bold.json'', File ''j'')]),
           (''s_scans.tsv'', File ''T'')]),
        (''notes'', File ''n'')])]"


subsection \<open>Directories where renaming has come to rest\<close>






section \<open>Properties\<close>

subsection \<open>Strings and identifiers\<close>

lemma py_in_sublist: "py_in sub s \<longleftrightarrow> sublist sub s"
  by (induction s) (auto simp: sublist_Cons_right)

text \<open>
  C9. For every token \<open>x\<close>, \<open>normalize_subject\<close> and \<open>normalize_session\<close> are idempotent,
  and each is the identity on a token that already starts with its prefix
  (\<^verbatim>\<open>sub-\<close>, respectively \<^verbatim>\<open>ses-\<close>).
\<close>

theorem normalize_idempotent:
  "normalize_subject (normalize_subject x) = normalize_subject x
   \<and> normalize_session (normalize_session x) = normalize_session x
   \<and> (prefix ''sub-'' x \<longrightarrow> normalize_subject x = x)
   \<and> (prefix ''ses-'' x \<longrightarrow> normalize_session x = x)"
  by (simp add: normalize_subject_def normalize_session_def)

theorem normalize_idempotent_witness:
  "normalize_subject (normalize_subject ''01'') = ''sub-01''
   \<and> normalize_session (normalize_session ''mrt1'') = ''ses-mrt1''
   \<and> normalize_subject ''sub-01'' = ''sub-01''
   \<and> normalize_session ''ses-001'' = ''ses-001''"
  using normalize_idempotent [of "''01''"] normalize_idempotent [of "''sub-01''"]
    normalize_idempotent [of "''mrt1''"] normalize_idempotent [of "''ses-001''"]
  by (simp add: normalize_subject_def normalize_session_def)

subsection \<open>Matching and listing\<close>













subsection \<open>Session resolution\<close>

lemma candidates_empty_filter:
  "session_candidates fs sp (Some []) = session_candidates fs sp None"
  by (simp add: session_candidates_def truthy_def)

lemma each_session_empty_filter:
  "each_session body (Some []) = each_session body None"
  by (intro ext) (simp add: each_session_def candidates_empty_filter)

text \<open>
  C10. An empty explicit session list behaves exactly like no list: session
  resolution discovers the \<^verbatim>\<open>ses-*\<close> directories, and each of the three passes gives
  the same outcome as with \<^verbatim>\<open>None\<close>.
\<close>

theorem empty_filter_discovers:
  "iter_session_paths fs subject_path (Some []) = iter_session_paths fs subject_path None
   \<and> fst (iter_session_paths fs subject_path (Some [])) =
       filter (isdir fs) (sort (glob fs subject_path ''ses-*''))
   \<and> rename_fieldmap_files env subjects base_dir (Some []) dry_run fs =
       rename_fieldmap_files env subjects base_dir None dry_run fs
   \<and> update_scans_tsv env subjects base_dir (Some []) dry_run fs =
       update_scans_tsv env subjects base_dir None dry_run fs
   \<and> update_fieldmap_json env subjects base_dir (Some []) b0 dry_run fs =
       update_fieldmap_json env subjects base_dir None b0 dry_run fs"
  by (simp add: iter_session_paths_def candidates_empty_filter rename_fieldmap_files_def
      update_scans_tsv_def update_fieldmap_json_def each_session_empty_filter)
    (simp add: session_candidates_def truthy_def)

theorem empty_filter_discovers_witness:
  "iter_session_paths sample_tree [''s''] (Some []) = ([[''s'', ''ses-1''], [''s'', ''ses-2'']], [])
   \<and> iter_session_paths sample_tree [''s''] None = ([[''s'', ''ses-1''], [''s'', ''ses-2'']], [])"
proof -
  have "iter_session_paths sample_tree [''s''] None = ([[''s'', ''ses-1''], [''s'', ''ses-2'']], [])"
    by code_simp
  then show ?thesis
    using empty_filter_discovers [of sample_tree "[''s'']" sample_env "[]" "[]" False "[]"]
    by simp
qed






subsection \<open>The file renamer\<close>

text \<open>
  C6, as the code has it. A name that contains \<^verbatim>\<open>fieldmap1\<close> has that token replaced
  by \<^verbatim>\<open>magnitude\<close>; a name that contains \<^verbatim>\<open>fieldmap2\<close> and not \<^verbatim>\<open>fieldmap1\<close> has it
  replaced by \<^verbatim>\<open>fieldmap\<close>; a name with neither token, and an entry that is no regular
  file, are left untouched. So one rule at most is applied, the first one that matches.
\<close>

theorem new_filename_rules:
  "(py_in ''fieldmap1'' n \<longrightarrow>
      new_filename n = Some (py_replace n ''fieldmap1'' ''magnitude''))
   \<and> (\<not> py_in ''fieldmap1'' n \<and> py_in ''fieldmap2'' n \<longrightarrow>
      new_filename n = Some (py_replace n ''fieldmap2'' ''fieldmap''))
   \<and> (\<not> py_in ''fieldmap1'' n \<and> \<not> py_in ''fieldmap2'' n \<longrightarrow>
      new_filename n = None \<and> rename_one env dry_run d n st = Completed st)
   \<and> (\<not> isfile (fst st) (d @ [n]) \<longrightarrow> rename_one env dry_run d n st = Completed st)
   \<and> (new_filename n = None
        \<or> new_filename n = Some (py_replace n ''fieldmap1'' ''magnitude'')
        \<or> new_filename n = Some (py_replace n ''fieldmap2'' ''fieldmap''))"
  by (simp add: new_filename_def rename_one_def)

theorem new_filename_rules_witness:
  "new_filename ''s_fieldmap1.nii'' = Some ''s_magnitude.nii''
   \<and> new_filename ''s_fieldmap2.nii'' = Some ''s_fieldmap.nii''
   \<and> new_filename ''s_T1w.nii'' = None
   \<and> rename_one sample_env False [''s'', ''ses-1'', ''fmap''] ''s_T1w.nii'' (sample_tree, []) =
       Completed (sample_tree, [])"
  using new_filename_rules [of "''s_fieldmap1.nii''" sample_env False "[]" "(sample_tree, [])"]
    new_filename_rules [of "''s_fieldmap2.nii''" sample_env False "[]" "(sample_tree, [])"]
    new_filename_rules [of "''s_T1w.nii''" sample_env False "[''s'', ''ses-1'', ''fmap'']"
      "(sample_tree, [])"]
  by (simp add: py_replace_def)

text \<open>
  The claim as the specification words it fails on a name with both tokens: the name
  contains \<^verbatim>\<open>fieldmap2\<close>, and the second rule is not the one applied to it.
\<close>

theorem new_filename_both_tokens:
  "py_in ''fieldmap2'' ''b_fieldmap1_fieldmap2''
   \<and> new_filename ''b_fieldmap1_fieldmap2'' = Some ''b_magnitude_fieldmap2''
   \<and> new_filename ''b_fieldmap1_fieldmap2'' \<noteq>
       Some (py_replace ''b_fieldmap1_fieldmap2'' ''fieldmap2'' ''fieldmap'')"
  by (simp add: new_filename_def py_replace_def)



subsection \<open>Dry run\<close>

lemma for_sessions_keeps:
  assumes "\<And>p st. \<exists>out. body p st = Completed (fst st, out)"
  shows "\<exists>out. for_sessions body explicit ps st = Completed (fst st, out)"
proof (induction ps arbitrary: st)
  case Nil
  then show ?case by (cases st) simp
next
  case (Cons p ps)
  show ?case
  proof (cases "isdir (fst st) p")
    case True
    obtain out where "body p st = Completed (fst st, out)"
      using assms by blast
    then show ?thesis
      using True Cons.IH [of "(fst st, out)"] by simp
  next
    case False
    then show ?thesis
      using Cons.IH [of "(fst st, if explicit then snd st @ [SessionNotFound p] else snd st)"]
      by simp
  qed
qed

lemma each_session_keeps:
  assumes "\<And>p st. \<exists>out. body p st = Completed (fst st, out)"
  shows "\<exists>out. each_session body sessions_filter sp st = Completed (fst st, out)"
  using for_sessions_keeps [OF assms] by (simp add: each_session_def split: prod.splits)

lemma for_subjects_keeps:
  assumes "\<And>s p st. \<exists>out. body s p st = Completed (fst st, out)"
  shows "\<exists>out. for_subjects body base_dir subjects st = Completed (fst st, out)"
proof (induction subjects arbitrary: st)
  case Nil
  then show ?case by (cases st) simp
next
  case (Cons s subjects)
  show ?case
  proof (cases "isdir (fst st) (base_dir @ [s])")
    case True
    obtain out where "body s (base_dir @ [s]) st = Completed (fst st, out)"
      using assms by blast
    then show ?thesis
      using True Cons.IH [of "(fst st, out)"] by simp
  next
    case False
    then show ?thesis
      using Cons.IH [of "(fst st, snd st @ [DirNotFound (base_dir @ [s])])"] by simp
  qed
qed

lemma rename_one_dry: "\<exists>out. rename_one env True d n st = Completed (fst st, out)"
  by (cases st) (simp add: rename_one_def split: option.splits)

lemma rename_files_dry: "\<exists>out. rename_files env True d ns st = Completed (fst st, out)"
proof (induction ns arbitrary: st)
  case Nil
  then show ?case by (cases st) simp
next
  case (Cons n ns)
  obtain out where "rename_one env True d n st = Completed (fst st, out)"
    using rename_one_dry by blast
  then show ?case
    using Cons.IH [of "(fst st, out)"] by simp
qed

lemma rename_session_dry: "\<exists>out. rename_session env True p st = Completed (fst st, out)"
  by (cases st) (simp add: rename_session_def rename_files_dry [where st = "(a, b)" for a b, simplified])

lemma scans_one_dry: "fst (scans_one env True p st) = fst st"
  by (simp add: scans_one_def split: sum.splits)

lemma scans_fold_dry: "fst (fold (scans_one env True) ps st) = fst st"
  by (induction ps arbitrary: st) (simp_all add: scans_one_dry)

lemma scans_session_dry: "\<exists>out. scans_session env True p st = Completed (fst st, out)"
proof -
  have "\<exists>out. fold (scans_one env True) ps st = (fst st, out)" for ps
    using scans_fold_dry [of env ps st] by (metis prod.collapse)
  then show ?thesis by (simp add: scans_session_def)
qed

lemma json_one_dry: "fst (json_one env True intended b0 p st) = fst st"
  by (simp add: json_one_def split: sum.splits)

lemma json_session_dry:
  "\<exists>out. json_session env True base_dir b0 subject p st = Completed (fst st, out)"
proof -
  have "\<exists>out. json_one env True intended b0 q st = (fst st, out)" for intended q
    using json_one_dry [of env intended b0 q st] by (metis prod.collapse)
  then show ?thesis by (simp add: json_session_def split: list.splits)
qed

text \<open>
  C2. With \<^verbatim>\<open>dry_run=True\<close> each of the three passes completes on the tree it
  started from, for every tree and every combination of arguments: nothing is
  renamed, written, created or deleted.
\<close>

theorem dry_run_keeps_tree:
  "(\<exists>out. rename_fieldmap_files env subjects base_dir sessions_filter True fs = Completed (fs, out))
   \<and> (\<exists>out. update_scans_tsv env subjects base_dir sessions_filter True fs = Completed (fs, out))
   \<and> (\<exists>out. update_fieldmap_json env subjects base_dir sessions_filter b0 True fs =
         Completed (fs, out))"
proof (intro conjI)
  show "\<exists>out. rename_fieldmap_files env subjects base_dir sessions_filter True fs =
      Completed (fs, out)"
    unfolding rename_fieldmap_files_def
    using for_subjects_keeps [where st = "(fs, [])", OF each_session_keeps, OF rename_session_dry]
    by simp
  show "\<exists>out. update_scans_tsv env subjects base_dir sessions_filter True fs = Completed (fs, out)"
    unfolding update_scans_tsv_def
    using for_subjects_keeps [where st = "(fs, [])", OF each_session_keeps, OF scans_session_dry]
    by simp
  show "\<exists>out. update_fieldmap_json env subjects base_dir sessions_filter b0 True fs =
      Completed (fs, out)"
    unfolding update_fieldmap_json_def
    using for_subjects_keeps [where st = "(fs, [])", OF each_session_keeps, OF json_session_dry]
    by simp
qed


theorem dry_run_keeps_tree_witness:
  "rename_fieldmap_files sample_env [''s'', ''t''] [] (Some [''ses-3'', ''ses-1'']) True sample_tree =
     Completed (sample_tree,
       [SessionNotFound [''s'', ''ses-3''],
        WouldRename [''s'', ''ses-1'', ''fmap'', ''s_fieldmap1.nii'']
          [''s'', ''ses-1'', ''fmap'', ''s_magnitude.nii''],
        WouldRename [''s'', ''ses-1'', ''fmap'', ''s_fieldmap2.nii'']
          [''s'', ''ses-1'', ''fmap'', ''s_fieldmap.nii''],
        DirNotFound [''t'']])
   \<and> update_scans_tsv sample_env [''s'', ''t''] [] (Some [''ses-3'', ''ses-1'']) True sample_tree =
     Completed (sample_tree,
       [SessionNotFound [''s'', ''ses-3''],
        WouldUpdateTSV 2 [''s'', ''ses-1'', ''s_scans.tsv''],
        DirNotFound [''t'']])
   \<and> update_fieldmap_json sample_env [''s'', ''t''] [] (Some [''ses-3'', ''ses-1''])
       ''b0map_fmap0'' True sample_tree =
     Completed (sample_tree,
       [SessionNotFound [''s'', ''ses-3''],
        WouldUpdateJSON [''s'', ''ses-1'', ''fmap'', ''s_ses-1_fieldmap.json''],
        DirNotFound [''t'']])"
proof -
  have "snd (case rename_fieldmap_files sample_env [''s'', ''t''] [] (Some [''ses-3'', ''ses-1''])
          True sample_tree of Completed st \<Rightarrow> st | Aborted e st \<Rightarrow> st) =
       [SessionNotFound [''s'', ''ses-3''],
        WouldRename [''s'', ''ses-1'', ''fmap'', ''s_fieldmap1.nii'']
          [''s'', ''ses-1'', ''fmap'', ''s_magnitude.nii''],
        WouldRename [''s'', ''ses-1'', ''fmap'', ''s_fieldmap2.nii'']
          [''s'', ''ses-1'', ''fmap'', ''s_fieldmap.nii''],
        DirNotFound [''t'']]"
    by code_simp
  moreover have "snd (case update_scans_tsv sample_env [''s'', ''t''] []
          (Some [''ses-3'', ''ses-1'']) True sample_tree of
          Completed st \<Rightarrow> st | Aborted e st \<Rightarrow> st) =
       [SessionNotFound [''s'', ''ses-3''],
        WouldUpdateTSV 2 [''s'', ''ses-1'', ''s_scans.tsv''],
        DirNotFound [''t'']]"
    by code_simp
  moreover have "snd (case update_fieldmap_json sample_env [''s'', ''t''] []
          (Some [''ses-3'', ''ses-1'']) ''b0map_fmap0'' True
          sample_tree of Completed st \<Rightarrow> st | Aborted e st \<Rightarrow> st) =
       [SessionNotFound [''s'', ''ses-3''],
        WouldUpdateJSON [''s'', ''ses-1'', ''fmap'', ''s_ses-1_fieldmap.json''],
        DirNotFound [''t'']]"
    by code_simp
  ultimately show ?thesis
    using dry_run_keeps_tree [where env = sample_env and subjects = "[''s'', ''t'']"
        and base_dir = "[]" and sessions_filter = "Some [''ses-3'', ''ses-1'']"
        and fs = sample_tree and ?b0.0 = "''b0map_fmap0''"]
    by auto
qed

subsection \<open>The sidecar updater\<close>















subsection \<open>The scan-table updater\<close>

lemma py_in_Cons: "\<not> py_in sub (c # cs) \<Longrightarrow> \<not> prefix sub (c # cs) \<and> \<not> py_in sub cs"
  by simp








subsection \<open>Renaming in a tree\<close>



















subsection \<open>Running the renamer twice\<close>



































end
